theory Spec2Isabelle
  imports Main
begin

section \<open>Python values used by the proxy\<close>

text \<open>
  A header mapping is a Python dict from header name to value. It is kept as an
  association list whose keys are unique; the order of the list stands for the
  iteration order of the dict.
\<close>

type_synonym headers = "(string \<times> string) list"

text \<open>\<^verbatim>\<open>sep.join(xs)\<close> on strings.\<close>

fun join :: "string \<Rightarrow> string list \<Rightarrow> string" where
  "join sep [] = []"
| "join sep [x] = x"
| "join sep (x # y # ys) = x @ sep @ join sep (y # ys)"

text \<open>\<^verbatim>\<open>'%d' % n\<close> for a non-negative integer: its decimal digits.\<close>

fun string_of_nat :: "nat \<Rightarrow> string" where
  "string_of_nat n =
     (if n < 10 then [char_of (48 + n)]
      else string_of_nat (n div 10) @ [char_of (48 + n mod 10)])"

declare string_of_nat.simps [simp del]

text \<open>\<^verbatim>\<open>s.rstrip('/')\<close>: the string without its trailing slashes.\<close>

definition rstrip_slash :: "string \<Rightarrow> string" where
  "rstrip_slash s = rev (dropWhile (\<lambda>c. c = CHR ''/'') (rev s))"

text \<open>
  \<^verbatim>\<open>set.remove(x)\<close> raises KeyError when \<open>x\<close> is not a member. The set of
  allowed methods is kept as a list (its iteration order, as \<^verbatim>\<open>', '.join\<close> sees it).
\<close>

datatype py_error = KeyError

definition set_remove :: "string \<Rightarrow> string list \<Rightarrow> py_error + string list" where
  "set_remove x xs = (if x \<in> set xs then Inr (removeAll x xs) else Inl KeyError)"


section \<open>Requests and responses\<close>

record request =
  req_method :: string
  path_info :: string
  query_string :: string
  req_headers :: headers

record response =
  status_int :: nat
  resp_headers :: headers
  body :: string

text \<open>
  Modelled from the spec: the response classes of \<^verbatim>\<open>swift.common.swob\<close> and the
  constant \<^verbatim>\<open>HTTP_NOT_FOUND\<close> of \<^verbatim>\<open>swift.common.http\<close> are not among the
  sources. A response is its status code (bad-request 400, method-not-allowed 405,
  not-found 404, the no-content success 204), the headers handed to the constructor
  and a body that starts empty. The reference to the request that the constructor
  receives is not kept.
\<close>

definition HTTP_NOT_FOUND :: nat where
  "HTTP_NOT_FOUND = 404"

definition HTTPBadRequest :: "request \<Rightarrow> response" where
  "HTTPBadRequest req = \<lparr>status_int = 400, resp_headers = [], body = []\<rparr>"

definition HTTPMethodNotAllowed :: "request \<Rightarrow> headers \<Rightarrow> response" where
  "HTTPMethodNotAllowed req hs = \<lparr>status_int = 405, resp_headers = hs, body = []\<rparr>"

definition HTTPNoContent :: "request \<Rightarrow> headers \<Rightarrow> response" where
  "HTTPNoContent req hs = \<lparr>status_int = 204, resp_headers = hs, body = []\<rparr>"


section \<open>The proxy application and its collaborators\<close>

text \<open>
  The fields of the proxy application that the account controller reads.
  \<open>memcache\<close> says whether \<^verbatim>\<open>app.memcache\<close> holds a client (it is None otherwise).
\<close>

record application =
  allow_account_management :: bool
  account_autocreate :: bool
  memcache :: bool

text \<open>A ring node is a dict describing a storage endpoint; the controller only counts them.\<close>

type_synonym node = headers

text \<open>
  Every call that leaves the controller, in the order it is made, with its arguments.
\<close>

datatype event =
    RingGetNodes string
  | GenerateRequestHeaders request bool
  | MemcacheDelete string
  | MakeRequests request nat string string "headers list"
  | GETorHEADBase request string nat string
  | AutocreateAccount string
  | TimeTime

text \<open>
  The collaborators of the controller that are not among the sources are parameters:
  the base class \<^verbatim>\<open>Controller\<close> (its set of public methods,
  \<^verbatim>\<open>generate_request_headers\<close>, \<^verbatim>\<open>make_requests\<close>, \<^verbatim>\<open>GETorHEAD_base\<close>,
  \<^verbatim>\<open>autocreate_account\<close>), the ring, the cache client, the clock, the constraints
  module and the library function \<^verbatim>\<open>unquote\<close>. \<open>'w\<close> is the state of everything
  outside the controller (replicas, cache, clock, ring); a collaborator that can read or
  change it takes it and returns it. \<open>'t\<close> is what \<^verbatim>\<open>time.time()\<close> returns.
  The flag of \<open>generate_request_headers\<close> is \<^verbatim>\<open>transfer\<close>: true where the handler
  passes \<^verbatim>\<open>transfer=True\<close>, false where it passes the request alone.
\<close>

record ('w, 't) deps =
  unquote :: "string \<Rightarrow> string"
  MAX_ACCOUNT_NAME_LENGTH :: nat
  Controller_allowed_methods :: "string list"
  gettext :: "string \<Rightarrow> string"
  check_metadata :: "request \<Rightarrow> string \<Rightarrow> response option"
  get_account_memcache_key :: "string \<Rightarrow> string"
  normalize_timestamp :: "'t \<Rightarrow> string"
  time_time :: "'w \<Rightarrow> 't \<times> 'w"
  ring_get_nodes :: "string \<Rightarrow> 'w \<Rightarrow> (nat \<times> node list) \<times> 'w"
  generate_request_headers :: "request \<Rightarrow> bool \<Rightarrow> 'w \<Rightarrow> headers \<times> 'w"
  memcache_delete :: "string \<Rightarrow> 'w \<Rightarrow> 'w"
  make_requests ::
    "request \<Rightarrow> nat \<Rightarrow> string \<Rightarrow> string \<Rightarrow> headers list \<Rightarrow> 'w \<Rightarrow> response \<times> 'w"
  GETorHEAD_base :: "request \<Rightarrow> string \<Rightarrow> nat \<Rightarrow> string \<Rightarrow> 'w \<Rightarrow> response \<times> 'w"
  autocreate_account :: "string \<Rightarrow> 'w \<Rightarrow> 'w"

text \<open>
  The state a handler runs in: the calls made so far (oldest first) and the outside state.
\<close>

type_synonym 'w world = "event list \<times> 'w"

definition call_time_time :: "('w, 't) deps \<Rightarrow> 'w world \<Rightarrow> 't \<times> 'w world" where
  "call_time_time d s =
     (case time_time d (snd s) of (t, w') \<Rightarrow> (t, (fst s @ [TimeTime], w')))"

definition call_get_nodes ::
  "('w, 't) deps \<Rightarrow> string \<Rightarrow> 'w world \<Rightarrow> (nat \<times> node list) \<times> 'w world" where
  "call_get_nodes d name s =
     (case ring_get_nodes d name (snd s) of
        (r, w') \<Rightarrow> (r, (fst s @ [RingGetNodes name], w')))"

definition call_generate_request_headers ::
  "('w, 't) deps \<Rightarrow> request \<Rightarrow> bool \<Rightarrow> 'w world \<Rightarrow> headers \<times> 'w world" where
  "call_generate_request_headers d req transfer s =
     (case generate_request_headers d req transfer (snd s) of
        (hs, w') \<Rightarrow> (hs, (fst s @ [GenerateRequestHeaders req transfer], w')))"

definition call_memcache_delete :: "('w, 't) deps \<Rightarrow> string \<Rightarrow> 'w world \<Rightarrow> 'w world" where
  "call_memcache_delete d key s =
     (fst s @ [MemcacheDelete key], memcache_delete d key (snd s))"

definition call_make_requests ::
  "('w, 't) deps \<Rightarrow> request \<Rightarrow> nat \<Rightarrow> string \<Rightarrow> string \<Rightarrow> headers list \<Rightarrow> 'w world
     \<Rightarrow> response \<times> 'w world" where
  "call_make_requests d req part meth path hss s =
     (case make_requests d req part meth path hss (snd s) of
        (resp, w') \<Rightarrow> (resp, (fst s @ [MakeRequests req part meth path hss], w')))"

definition call_GETorHEAD_base ::
  "('w, 't) deps \<Rightarrow> request \<Rightarrow> string \<Rightarrow> nat \<Rightarrow> string \<Rightarrow> 'w world \<Rightarrow> response \<times> 'w world" where
  "call_GETorHEAD_base d req server_type part path s =
     (case GETorHEAD_base d req server_type part path (snd s) of
        (resp, w') \<Rightarrow> (resp, (fst s @ [GETorHEADBase req server_type part path], w')))"

definition call_autocreate_account :: "('w, 't) deps \<Rightarrow> string \<Rightarrow> 'w world \<Rightarrow> 'w world" where
  "call_autocreate_account d name s =
     (fst s @ [AutocreateAccount name], autocreate_account d name (snd s))"


text \<open>Reading the call log: which calls are replica dispatches, which are cache deletes.\<close>

fun is_dispatch :: "event \<Rightarrow> bool" where
  "is_dispatch (MakeRequests req part meth path hss) = True"
| "is_dispatch e = False"

fun is_invalidation :: "event \<Rightarrow> bool" where
  "is_invalidation (MemcacheDelete key) = True"
| "is_invalidation e = False"


section \<open>The account controller\<close>

record controller =
  app :: application
  account_name :: string
  allowed_methods :: "string list"

text \<open>
  \<^verbatim>\<open>AccountController.__init__\<close>: the name is percent-decoded, and PUT and DELETE
  leave the allowed methods when account management is off.
\<close>

definition AccountController_init ::
  "('w, 't) deps \<Rightarrow> application \<Rightarrow> string \<Rightarrow> py_error + controller" where
  "AccountController_init d a name =
     (let self = \<lparr>app = a, account_name = unquote d name,
                  allowed_methods = Controller_allowed_methods d\<rparr>
      in if \<not> allow_account_management a then
           (case set_remove ''PUT'' (allowed_methods self) of
              Inl e \<Rightarrow> Inl e
            | Inr ms \<Rightarrow>
                (case set_remove ''DELETE'' ms of
                   Inl e \<Rightarrow> Inl e
                 | Inr ms' \<Rightarrow> Inr (self\<lparr>allowed_methods := ms'\<rparr>)))
         else Inr self)"

text \<open>The bad-request response that the three name-length checks build.\<close>

definition name_too_long :: "('w, 't) deps \<Rightarrow> controller \<Rightarrow> request \<Rightarrow> response" where
  "name_too_long d self req =
     (HTTPBadRequest req)\<lparr>body :=
        ''Account name length of '' @ string_of_nat (length (account_name self))
        @ '' longer than '' @ string_of_nat (MAX_ACCOUNT_NAME_LENGTH d)\<rparr>"

text \<open>The headers of the faked response of \<^verbatim>\<open>GETorHEAD\<close>.\<close>

definition fake_headers :: "string \<Rightarrow> headers" where
  "fake_headers ts =
     [(''Content-Length'', ''0''),
      (''Accept-Ranges'', ''bytes''),
      (''Content-Type'', ''text/plain; charset=utf-8''),
      (''X-Timestamp'', ts),
      (''X-Account-Bytes-Used'', ''0''),
      (''X-Account-Container-Count'', ''0''),
      (''X-Account-Object-Count'', ''0'')]"

definition GETorHEAD ::
  "('w, 't) deps \<Rightarrow> controller \<Rightarrow> request \<Rightarrow> 'w world \<Rightarrow> response \<times> 'w world" where
  "GETorHEAD d self req s =
     (if length (account_name self) > MAX_ACCOUNT_NAME_LENGTH d then
        (name_too_long d self req, s)
      else
        let ((partition, nodes), s1) = call_get_nodes d (account_name self) s;
            (resp, s2) = call_GETorHEAD_base d req (gettext d ''Account'') partition
                           (rstrip_slash (path_info req)) s1
        in if status_int resp = HTTP_NOT_FOUND \<and> account_autocreate (app self) then
             let (t, s3) = call_time_time d s2
             in (HTTPNoContent req (fake_headers (normalize_timestamp d t)), s3)
           else (resp, s2))"

definition PUT ::
  "('w, 't) deps \<Rightarrow> controller \<Rightarrow> request \<Rightarrow> 'w world \<Rightarrow> response \<times> 'w world" where
  "PUT d self req s =
     (if \<not> allow_account_management (app self) then
        (HTTPMethodNotAllowed req [(''Allow'', join '', '' (allowed_methods self))], s)
      else
        case check_metadata d req ''account'' of
          Some error_response \<Rightarrow> (error_response, s)
        | None \<Rightarrow>
            if length (account_name self) > MAX_ACCOUNT_NAME_LENGTH d then
              (name_too_long d self req, s)
            else
              let ((account_partition, accounts), s1) =
                    call_get_nodes d (account_name self) s;
                  (hs, s2) = call_generate_request_headers d req True s1;
                  s3 = (if memcache (app self)
                        then call_memcache_delete d
                               (get_account_memcache_key d (account_name self)) s2
                        else s2)
              in call_make_requests d req account_partition ''PUT'' (path_info req)
                   (replicate (length accounts) hs) s3)"

definition POST ::
  "('w, 't) deps \<Rightarrow> controller \<Rightarrow> request \<Rightarrow> 'w world \<Rightarrow> response \<times> 'w world" where
  "POST d self req s =
     (if length (account_name self) > MAX_ACCOUNT_NAME_LENGTH d then
        (name_too_long d self req, s)
      else
        case check_metadata d req ''account'' of
          Some error_response \<Rightarrow> (error_response, s)
        | None \<Rightarrow>
            let ((account_partition, accounts), s1) =
                  call_get_nodes d (account_name self) s;
                (hs, s2) = call_generate_request_headers d req True s1;
                s3 = (if memcache (app self)
                      then call_memcache_delete d
                             (get_account_memcache_key d (account_name self)) s2
                      else s2);
                (resp, s4) =
                  call_make_requests d req account_partition ''POST'' (path_info req)
                    (replicate (length accounts) hs) s3
            in if status_int resp = HTTP_NOT_FOUND \<and> account_autocreate (app self) then
                 let s5 = call_autocreate_account d (account_name self) s4
                 in call_make_requests d req account_partition ''POST'' (path_info req)
                      (replicate (length accounts) hs) s5
               else (resp, s4))"

definition DELETE ::
  "('w, 't) deps \<Rightarrow> controller \<Rightarrow> request \<Rightarrow> 'w world \<Rightarrow> response \<times> 'w world" where
  "DELETE d self req s =
     (if query_string req \<noteq> [] then (HTTPBadRequest req, s)
      else if \<not> allow_account_management (app self) then
        (HTTPMethodNotAllowed req [(''Allow'', join '', '' (allowed_methods self))], s)
      else
        let ((account_partition, accounts), s1) =
              call_get_nodes d (account_name self) s;
            (hs, s2) = call_generate_request_headers d req False s1;
            s3 = (if memcache (app self)
                  then call_memcache_delete d
                         (get_account_memcache_key d (account_name self)) s2
                  else s2)
        in call_make_requests d req account_partition ''DELETE'' (path_info req)
             (replicate (length accounts) hs) s3)"


section \<open>The gatekeeper middleware\<close>

subsection \<open>Regular expressions, as far as the gatekeeper builds them\<close>

text \<open>
  Python's \<^verbatim>\<open>re\<close> module is a library outside the repository. The model covers the
  expressions that are alternations of literal strings: \<^verbatim>\<open>|\<close> separates the
  alternatives and every other character stands for itself. An expression with any
  other special character is outside the model, and compiling it gives \<open>None\<close>.
\<close>

text \<open>With \<^verbatim>\<open>re.IGNORECASE\<close> on byte strings, the letters A to Z match their lower case.\<close>

definition lower_char :: "char \<Rightarrow> char" where
  "lower_char c =
     (let n = (of_char c :: nat) in if 65 \<le> n \<and> n \<le> 90 then char_of (n + 32) else c)"

text \<open>The special characters of the expression language other than \<^verbatim>\<open>|\<close>.\<close>

definition re_unsupported :: "char \<Rightarrow> bool" where
  "re_unsupported c = (c \<in> set (CHR 0x5C # ''.^$*+?{}[]()''))"

text \<open>The alternatives of an expression: the pieces between the bars.\<close>

fun split_bar :: "string \<Rightarrow> string list" where
  "split_bar [] = [[]]"
| "split_bar (c # cs) =
     (if c = CHR ''|'' then [] # split_bar cs
      else (case split_bar cs of [] \<Rightarrow> [[c]] | x # xs \<Rightarrow> (c # x) # xs))"

text \<open>
  A literal alternative matched at the start of the subject, ignoring case; what follows
  the alternative in the subject is not looked at, as \<^verbatim>\<open>match\<close> anchors at the
  start only.
\<close>

fun match_literal :: "string \<Rightarrow> string \<Rightarrow> bool" where
  "match_literal [] s = True"
| "match_literal (p # ps) [] = False"
| "match_literal (p # ps) (c # cs) = (lower_char p = lower_char c \<and> match_literal ps cs)"

text \<open>
  \<^verbatim>\<open>re.compile(expr, re.IGNORECASE).match\<close>, as the truth value of its result: a match
  object is true, None is false.
\<close>

definition re_compile_IGNORECASE_match :: "string \<Rightarrow> (string \<Rightarrow> bool) option" where
  "re_compile_IGNORECASE_match expr =
     (if list_ex re_unsupported expr then None
      else Some (\<lambda>s. list_ex (\<lambda>alt. match_literal alt s) (split_bar expr)))"

subsection \<open>The exclusion lists and the middleware\<close>

text \<open>
  \<^verbatim>\<open>get_sys_meta_prefix\<close> of \<^verbatim>\<open>swift.common.request_helpers\<close> is not among the
  sources: it is a parameter.
\<close>

record helpers =
  get_sys_meta_prefix :: "string \<Rightarrow> string"

definition inbound_exclusions :: "helpers \<Rightarrow> string list" where
  "inbound_exclusions h =
     [get_sys_meta_prefix h ''account'',
      get_sys_meta_prefix h ''container'',
      get_sys_meta_prefix h ''object'']"

definition outbound_exclusions :: "helpers \<Rightarrow> string list" where
  "outbound_exclusions h = inbound_exclusions h"

definition make_exclusion_test :: "string list \<Rightarrow> (string \<Rightarrow> bool) option" where
  "make_exclusion_test exclusions =
     (let expr = join ''|'' exclusions in re_compile_IGNORECASE_match expr)"

text \<open>
  Modelled from the spec: \<^verbatim>\<open>remove_items\<close> of \<^verbatim>\<open>swift.common.request_helpers\<close> is
  not among the sources. The spec (4.1) has the filter remove every header whose name
  satisfies the condition and return the filtered mapping and what was removed.
\<close>

definition remove_items :: "headers \<Rightarrow> (string \<Rightarrow> bool) \<Rightarrow> headers \<times> headers" where
  "remove_items hs condition =
     (filter (\<lambda>kv. \<not> condition (fst kv)) hs, filter (\<lambda>kv. condition (fst kv)) hs)"

text \<open>
  The middleware object. \<open>wsgi_app\<close> is the rest of the pipeline, which turns a request
  into a response and may change the outside state. The logger is not a field: the
  debug lines it is given are a result of the call.
\<close>

record 'w gatekeeper =
  wsgi_app :: "request \<Rightarrow> 'w \<Rightarrow> response \<times> 'w"
  inbound_condition :: "string \<Rightarrow> bool"
  outbound_condition :: "string \<Rightarrow> bool"

definition GatekeeperMiddleware_init ::
  "helpers \<Rightarrow> (request \<Rightarrow> 'w \<Rightarrow> response \<times> 'w) \<Rightarrow> 'w gatekeeper option" where
  "GatekeeperMiddleware_init h a =
     (case make_exclusion_test (inbound_exclusions h) of
        None \<Rightarrow> None
      | Some ic \<Rightarrow>
          (case make_exclusion_test (outbound_exclusions h) of
             None \<Rightarrow> None
           | Some oc \<Rightarrow>
               Some \<lparr>wsgi_app = a, inbound_condition = ic, outbound_condition = oc\<rparr>))"

text \<open>
  A debug line of the logger: the fixed text and the removed headers it is formatted with.
\<close>

type_synonym log_line = "string \<times> headers"

text \<open>
  \<^verbatim>\<open>GatekeeperMiddleware.__call__\<close>: the response that leaves the middleware, the
  debug lines it logged, and the outside state.
\<close>

definition GatekeeperMiddleware_call ::
  "'w gatekeeper \<Rightarrow> request \<Rightarrow> 'w \<Rightarrow> (response \<times> log_line list) \<times> 'w" where
  "GatekeeperMiddleware_call self req w =
     (let (kept, removed) = remove_items (req_headers req) (inbound_condition self);
          log1 = (if removed \<noteq> [] then [(''removed request headers: '', removed)] else []);
          (resp, w') = wsgi_app self (req\<lparr>req_headers := kept\<rparr>) w;
          (kept', removed') = remove_items (resp_headers resp) (outbound_condition self);
          log2 = (if removed' \<noteq> [] then [(''removed response headers: '', removed')] else [])
      in ((resp\<lparr>resp_headers := kept'\<rparr>, log1 @ log2), w'))"


section \<open>A concrete deployment\<close>

text \<open>
  One instance of the parameters, to run the handlers on. The outside state is whether
  the account exists on the replicas; the clock is a number of seconds.
\<close>

fun hex_digit :: "char \<Rightarrow> nat option" where
  "hex_digit c =
     (let n = (of_char c :: nat)
      in if 48 \<le> n \<and> n \<le> 57 then Some (n - 48)
         else if 65 \<le> n \<and> n \<le> 70 then Some (n - 55)
         else if 97 \<le> n \<and> n \<le> 102 then Some (n - 87)
         else None)"

fun percent_decode :: "string \<Rightarrow> string" where
  "percent_decode (c # a # b # cs) =
     (if c = CHR ''%'' then
        (case (hex_digit a, hex_digit b) of
           (Some x, Some y) \<Rightarrow> char_of (16 * x + y) # percent_decode cs
         | _ \<Rightarrow> c # percent_decode (a # b # cs))
      else c # percent_decode (a # b # cs))"
| "percent_decode cs = cs"

definition three_nodes :: "node list" where
  "three_nodes =
     [[(''ip'', ''10.0.0.1'')], [(''ip'', ''10.0.0.2'')], [(''ip'', ''10.0.0.3'')]]"

definition bad_metadata :: "request \<Rightarrow> response" where
  "bad_metadata req = (HTTPBadRequest req)\<lparr>body := ''Metadata name cannot be empty''\<rparr>"

definition cluster :: "(bool, nat) deps" where
  "cluster =
     \<lparr>unquote = percent_decode,
      MAX_ACCOUNT_NAME_LENGTH = 256,
      Controller_allowed_methods =
        [''GET'', ''HEAD'', ''PUT'', ''POST'', ''DELETE'', ''OPTIONS''],
      gettext = (\<lambda>s. s),
      check_metadata = (\<lambda>req target.
        if ''X-Account-Meta-'' \<in> fst ` set (req_headers req)
        then Some (bad_metadata req) else None),
      get_account_memcache_key = (\<lambda>name. ''account/'' @ name),
      normalize_timestamp = (\<lambda>t. string_of_nat t @ ''.00000''),
      time_time = (\<lambda>w. (1383490000, w)),
      ring_get_nodes = (\<lambda>name w. ((7, three_nodes), w)),
      generate_request_headers = (\<lambda>req transfer w.
        ((''x-trans-id'', ''tx1'') # (if transfer then req_headers req else []), w)),
      memcache_delete = (\<lambda>key w. w),
      make_requests = (\<lambda>req part meth path hss w.
        if meth = ''PUT'' then (\<lparr>status_int = 201, resp_headers = [], body = []\<rparr>, True)
        else if meth = ''DELETE''
        then (\<lparr>status_int = (if w then 204 else 404), resp_headers = [], body = []\<rparr>, False)
        else (\<lparr>status_int = (if w then 204 else 404), resp_headers = [], body = []\<rparr>, w)),
      GETorHEAD_base = (\<lambda>req server_type part path w.
        (\<lparr>status_int = (if w then 204 else 404), resp_headers = [], body = []\<rparr>, w)),
      autocreate_account = (\<lambda>name w. True)\<rparr>"

text \<open>The same deployment with replicas that refuse the implicit create.\<close>

definition stubborn_cluster :: "(bool, nat) deps" where
  "stubborn_cluster = cluster\<lparr>autocreate_account := (\<lambda>name w. w)\<rparr>"

definition managed :: application where
  "managed = \<lparr>allow_account_management = True, account_autocreate = True, memcache = True\<rparr>"

definition unmanaged :: application where
  "unmanaged = \<lparr>allow_account_management = False, account_autocreate = True, memcache = True\<rparr>"

definition uncached :: application where
  "uncached = \<lparr>allow_account_management = True, account_autocreate = False, memcache = False\<rparr>"

definition long_name :: string where
  "long_name = replicate 257 CHR ''a''"

definition request_for :: "string \<Rightarrow> string \<Rightarrow> request" where
  "request_for meth name =
     \<lparr>req_method = meth, path_info = ''/v1/'' @ name, query_string = [], req_headers = []\<rparr>"

definition sysmeta_helpers :: helpers where
  "sysmeta_helpers = \<lparr>get_sys_meta_prefix = (\<lambda>t. ''x-'' @ t @ ''-sysmeta-'')\<rparr>"

text \<open>
  A pipeline behind the gatekeeper that answers with the headers it received and one
  internal header of its own.
\<close>

definition leaky_app :: "request \<Rightarrow> bool \<Rightarrow> response \<times> bool" where
  "leaky_app req w =
     (\<lparr>status_int = 200,
       resp_headers = (''X-Container-Sysmeta-Acl'', ''secret'') # req_headers req,
       body = []\<rparr>, w)"

text \<open>The middleware that \<open>sysmeta_helpers\<close> and \<open>leaky_app\<close> give.\<close>

definition sysmeta_gatekeeper :: "bool gatekeeper" where
  "sysmeta_gatekeeper =
     \<lparr>wsgi_app = leaky_app,
      inbound_condition = (\<lambda>s. match_literal ''x-account-sysmeta-'' s
                              \<or> match_literal ''x-container-sysmeta-'' s
                              \<or> match_literal ''x-object-sysmeta-'' s),
      outbound_condition = (\<lambda>s. match_literal ''x-account-sysmeta-'' s
                              \<or> match_literal ''x-container-sysmeta-'' s
                              \<or> match_literal ''x-object-sysmeta-'' s)\<rparr>"

definition forged_request :: request where
  "forged_request =
     (request_for ''POST'' ''alpha'')\<lparr>req_headers :=
        [(''X-Account-Sysmeta-Foo'', ''1''), (''X-Account-Meta-Bar'', ''2'')]\<rparr>"

text \<open>A controller as the proxy builds it when account management is on.\<close>

definition account_controller :: "application \<Rightarrow> string \<Rightarrow> controller" where
  "account_controller a name =
     \<lparr>app = a, account_name = name,
      allowed_methods = [''GET'', ''HEAD'', ''PUT'', ''POST'', ''DELETE'', ''OPTIONS'']\<rparr>"

definition bulk_delete :: request where
  "bulk_delete = (request_for ''DELETE'' ''alpha'')\<lparr>query_string := ''bulk-delete''\<rparr>"

text \<open>A request with a metadata header whose name is empty after the prefix.\<close>

definition empty_meta_request :: "string \<Rightarrow> string \<Rightarrow> request" where
  "empty_meta_request meth name =
     (request_for meth name)\<lparr>req_headers := [(''X-Account-Meta-'', ''v'')]\<rparr>"


section \<open>What the handlers do, step by step\<close>

lemmas call_defs =
  call_time_time_def call_get_nodes_def call_generate_request_headers_def
  call_memcache_delete_def call_make_requests_def call_GETorHEAD_base_def
  call_autocreate_account_def

text \<open>
  A PUT that passes its three checks resolves the ring, builds the headers, deletes the
  cache key when there is a cache, and dispatches once.
\<close>

lemma PUT_dispatch:
  assumes "allow_account_management (app self)"
    and "check_metadata d req ''account'' = None"
    and "length (account_name self) \<le> MAX_ACCOUNT_NAME_LENGTH d"
    and "ring_get_nodes d (account_name self) w = ((part, nodes), w1)"
    and "generate_request_headers d req True w1 = (hs, w2)"
    and "make_requests d req part ''PUT'' (path_info req) (replicate (length nodes) hs)
           (if memcache (app self)
            then memcache_delete d (get_account_memcache_key d (account_name self)) w2
            else w2) = (resp, w4)"
  shows "PUT d self req (tr, w) =
           (resp,
            (tr @ [RingGetNodes (account_name self), GenerateRequestHeaders req True]
                @ (if memcache (app self)
                   then [MemcacheDelete (get_account_memcache_key d (account_name self))]
                   else [])
                @ [MakeRequests req part ''PUT'' (path_info req) (replicate (length nodes) hs)],
             w4))"
  using assms by (cases "memcache (app self)") (simp_all add: PUT_def call_defs)

lemma DELETE_dispatch:
  assumes "allow_account_management (app self)"
    and "query_string req = []"
    and "ring_get_nodes d (account_name self) w = ((part, nodes), w1)"
    and "generate_request_headers d req False w1 = (hs, w2)"
    and "make_requests d req part ''DELETE'' (path_info req) (replicate (length nodes) hs)
           (if memcache (app self)
            then memcache_delete d (get_account_memcache_key d (account_name self)) w2
            else w2) = (resp, w4)"
  shows "DELETE d self req (tr, w) =
           (resp,
            (tr @ [RingGetNodes (account_name self), GenerateRequestHeaders req False]
                @ (if memcache (app self)
                   then [MemcacheDelete (get_account_memcache_key d (account_name self))]
                   else [])
                @ [MakeRequests req part ''DELETE'' (path_info req)
                     (replicate (length nodes) hs)],
             w4))"
  using assms by (cases "memcache (app self)") (simp_all add: DELETE_def call_defs)

lemma POST_dispatch:
  assumes "check_metadata d req ''account'' = None"
    and "length (account_name self) \<le> MAX_ACCOUNT_NAME_LENGTH d"
    and "ring_get_nodes d (account_name self) w = ((part, nodes), w1)"
    and "generate_request_headers d req True w1 = (hs, w2)"
    and "make_requests d req part ''POST'' (path_info req) (replicate (length nodes) hs)
           (if memcache (app self)
            then memcache_delete d (get_account_memcache_key d (account_name self)) w2
            else w2) = (resp, w4)"
    and "make_requests d req part ''POST'' (path_info req) (replicate (length nodes) hs)
           (autocreate_account d (account_name self) w4) = (resp', w6)"
  shows "POST d self req (tr, w) =
           (if status_int resp = HTTP_NOT_FOUND \<and> account_autocreate (app self) then
              (resp',
               (tr @ [RingGetNodes (account_name self), GenerateRequestHeaders req True]
                   @ (if memcache (app self)
                      then [MemcacheDelete (get_account_memcache_key d (account_name self))]
                      else [])
                   @ [MakeRequests req part ''POST'' (path_info req)
                        (replicate (length nodes) hs),
                      AutocreateAccount (account_name self),
                      MakeRequests req part ''POST'' (path_info req)
                        (replicate (length nodes) hs)],
                w6))
            else
              (resp,
               (tr @ [RingGetNodes (account_name self), GenerateRequestHeaders req True]
                   @ (if memcache (app self)
                      then [MemcacheDelete (get_account_memcache_key d (account_name self))]
                      else [])
                   @ [MakeRequests req part ''POST'' (path_info req)
                        (replicate (length nodes) hs)],
                w4)))"
  using assms by (cases "memcache (app self)") (simp_all add: POST_def call_defs)

lemma GETorHEAD_dispatch:
  assumes "length (account_name self) \<le> MAX_ACCOUNT_NAME_LENGTH d"
    and "ring_get_nodes d (account_name self) w = ((part, nodes), w1)"
    and "GETorHEAD_base d req (gettext d ''Account'') part (rstrip_slash (path_info req)) w1
           = (resp, w2)"
    and "time_time d w2 = (t, w3)"
  shows "GETorHEAD d self req (tr, w) =
           (if status_int resp = HTTP_NOT_FOUND \<and> account_autocreate (app self) then
              (HTTPNoContent req (fake_headers (normalize_timestamp d t)),
               (tr @ [RingGetNodes (account_name self),
                      GETorHEADBase req (gettext d ''Account'') part
                        (rstrip_slash (path_info req)),
                      TimeTime],
                w3))
            else
              (resp,
               (tr @ [RingGetNodes (account_name self),
                      GETorHEADBase req (gettext d ''Account'') part
                        (rstrip_slash (path_info req))],
                w2)))"
  using assms by (simp add: GETorHEAD_def call_defs)

text \<open>The shapes a call log of a mutating handler can have, from an empty log.\<close>

lemma PUT_calls:
  "fst (snd (PUT d self req ([], w))) = []
   \<or> (\<exists>part n hs. fst (snd (PUT d self req ([], w))) =
         [RingGetNodes (account_name self), GenerateRequestHeaders req True]
         @ (if memcache (app self)
            then [MemcacheDelete (get_account_memcache_key d (account_name self))] else [])
         @ [MakeRequests req part ''PUT'' (path_info req) (replicate n hs)])"
  by (cases "memcache (app self)")
    (auto simp: PUT_def call_defs split: option.splits prod.splits)

lemma DELETE_calls:
  "fst (snd (DELETE d self req ([], w))) = []
   \<or> (\<exists>part n hs. fst (snd (DELETE d self req ([], w))) =
         [RingGetNodes (account_name self), GenerateRequestHeaders req False]
         @ (if memcache (app self)
            then [MemcacheDelete (get_account_memcache_key d (account_name self))] else [])
         @ [MakeRequests req part ''DELETE'' (path_info req) (replicate n hs)])"
  by (cases "memcache (app self)")
    (auto simp: DELETE_def call_defs split: option.splits prod.splits)

lemma POST_calls:
  "fst (snd (POST d self req ([], w))) = []
   \<or> (\<exists>part n hs. fst (snd (POST d self req ([], w))) =
         [RingGetNodes (account_name self), GenerateRequestHeaders req True]
         @ (if memcache (app self)
            then [MemcacheDelete (get_account_memcache_key d (account_name self))] else [])
         @ [MakeRequests req part ''POST'' (path_info req) (replicate n hs)])
   \<or> (\<exists>part n hs. fst (snd (POST d self req ([], w))) =
         [RingGetNodes (account_name self), GenerateRequestHeaders req True]
         @ (if memcache (app self)
            then [MemcacheDelete (get_account_memcache_key d (account_name self))] else [])
         @ [MakeRequests req part ''POST'' (path_info req) (replicate n hs),
            AutocreateAccount (account_name self),
            MakeRequests req part ''POST'' (path_info req) (replicate n hs)])"
  by (cases "memcache (app self)")
    (auto simp: POST_def call_defs split: option.splits prod.splits)

lemma dispatch_not_invalidation: "is_dispatch e \<Longrightarrow> \<not> is_invalidation e"
  by (cases e) simp_all

lemma invalidation_first:
  assumes "calls = [] \<or> (\<exists>e rest. is_dispatch e \<and> \<not> list_ex is_invalidation rest \<and>
             calls = [RingGetNodes name, GenerateRequestHeaders req transfer]
                     @ (if cached then [MemcacheDelete key] else []) @ e # rest)"
    and "list_ex is_dispatch calls"
  shows "filter is_invalidation (takeWhile (\<lambda>e. \<not> is_dispatch e) calls)
           = (if cached then [MemcacheDelete key] else [])
       \<and> filter is_invalidation (dropWhile (\<lambda>e. \<not> is_dispatch e) calls) = []"
  using assms by (auto simp: list_ex_iff filter_empty_conv dispatch_not_invalidation)

text \<open>The constructor, when account management is off.\<close>

lemma set_remove_twice:
  assumes "set_remove x xs = Inr ms" and "set_remove y ms = Inr ms'"
  shows "x \<notin> set ms' \<and> y \<notin> set ms' \<and> set ms' \<subseteq> set xs"
proof -
  from assms(1) have ms: "ms = removeAll x xs"
    by (simp add: set_remove_def split: if_splits)
  from assms(2) have ms': "ms' = removeAll y ms"
    by (simp add: set_remove_def split: if_splits)
  show ?thesis unfolding ms' ms by auto
qed

lemma AccountController_init_unmanaged:
  assumes "AccountController_init d a name = Inr self"
    and "\<not> allow_account_management a"
  shows "app self = a \<and> account_name self = unquote d name
       \<and> ''PUT'' \<notin> set (allowed_methods self) \<and> ''DELETE'' \<notin> set (allowed_methods self)"
proof -
  obtain ms where r1: "set_remove ''PUT'' (Controller_allowed_methods d) = Inr ms"
    using assms by (cases "set_remove ''PUT'' (Controller_allowed_methods d)")
      (simp_all add: AccountController_init_def)
  obtain ms' where r2: "set_remove ''DELETE'' ms = Inr ms'"
    using assms r1 by (cases "set_remove ''DELETE'' ms")
      (simp_all add: AccountController_init_def)
  have self: "self = \<lparr>app = a, account_name = unquote d name, allowed_methods = ms'\<rparr>"
    using assms r1 r2 by (simp add: AccountController_init_def)
  from set_remove_twice [OF r1 r2] show ?thesis unfolding self by simp
qed

text \<open>
  The constructor returns a controller whenever the base class lists PUT and DELETE
  among the public methods, which it does for this class: both handlers are public.
\<close>

lemma AccountController_init_returns:
  assumes "''PUT'' \<in> set (Controller_allowed_methods d)"
    and "''DELETE'' \<in> set (Controller_allowed_methods d)"
  shows "\<exists>self. AccountController_init d a name = Inr self"
proof -
  have r1: "set_remove ''PUT'' (Controller_allowed_methods d)
              = Inr (removeAll ''PUT'' (Controller_allowed_methods d))"
    using assms(1) by (simp add: set_remove_def)
  have "''DELETE'' \<in> set (removeAll ''PUT'' (Controller_allowed_methods d))"
    using assms(2) by simp
  then have r2: "set_remove ''DELETE'' (removeAll ''PUT'' (Controller_allowed_methods d))
              = Inr (removeAll ''DELETE'' (removeAll ''PUT'' (Controller_allowed_methods d)))"
    by (simp only: set_remove_def if_True)
  show ?thesis
    by (cases "allow_account_management a")
      (simp_all add: AccountController_init_def r1 r2)
qed

text \<open>The regular expression of the gatekeeper, for prefixes without special characters.\<close>

lemma split_bar_no_bar: "CHR ''|'' \<notin> set a \<Longrightarrow> split_bar a = [a]"
  by (induction a) auto

lemma split_bar_append:
  "CHR ''|'' \<notin> set a \<Longrightarrow> split_bar (a @ CHR ''|'' # r) = a # split_bar r"
  by (induction a) auto

lemma split_bar_join3:
  assumes "CHR ''|'' \<notin> set a" "CHR ''|'' \<notin> set b" "CHR ''|'' \<notin> set c"
  shows "split_bar (join ''|'' [a, b, c]) = [a, b, c]"
  using assms by (simp add: split_bar_append split_bar_no_bar)

lemma match_literal_iff:
  "match_literal p s \<longleftrightarrow> take (length p) (map lower_char s) = map lower_char p"
  by (induction p s rule: match_literal.induct) auto

lemma not_unsupported_bar: "\<not> re_unsupported CHR ''|''"
  by (simp add: re_unsupported_def)

lemma make_exclusion_test_literals:
  assumes "list_all (\<lambda>p. \<not> list_ex re_unsupported p \<and> CHR ''|'' \<notin> set p) [a, b, c]"
  shows "make_exclusion_test [a, b, c] =
           Some (\<lambda>s. match_literal a s \<or> match_literal b s \<or> match_literal c s)"
proof -
  have sup: "\<not> list_ex re_unsupported (join ''|'' [a, b, c])"
    using assms by (simp add: not_unsupported_bar)
  have "split_bar (join ''|'' [a, b, c]) = [a, b, c]"
    using assms by (intro split_bar_join3) simp_all
  then have sp: "split_bar (a @ CHR ''|'' # b @ CHR ''|'' # c) = [a, b, c]"
    by simp
  show ?thesis
    unfolding make_exclusion_test_def Let_def re_compile_IGNORECASE_match_def
    using sup by (simp add: sp)
qed

lemma GatekeeperMiddleware_init_literals:
  assumes "list_all (\<lambda>p. \<not> list_ex re_unsupported p \<and> CHR ''|'' \<notin> set p)
             (inbound_exclusions h)"
  shows "GatekeeperMiddleware_init h a =
           Some \<lparr>wsgi_app = a,
                 inbound_condition = (\<lambda>s. match_literal (get_sys_meta_prefix h ''account'') s
                    \<or> match_literal (get_sys_meta_prefix h ''container'') s
                    \<or> match_literal (get_sys_meta_prefix h ''object'') s),
                 outbound_condition = (\<lambda>s. match_literal (get_sys_meta_prefix h ''account'') s
                    \<or> match_literal (get_sys_meta_prefix h ''container'') s
                    \<or> match_literal (get_sys_meta_prefix h ''object'') s)\<rparr>"
proof -
  from assms have "list_all (\<lambda>p. \<not> list_ex re_unsupported p \<and> CHR ''|'' \<notin> set p)
      [get_sys_meta_prefix h ''account'', get_sys_meta_prefix h ''container'',
       get_sys_meta_prefix h ''object'']"
    unfolding inbound_exclusions_def .
  from make_exclusion_test_literals [OF this] show ?thesis
    by (simp add: GatekeeperMiddleware_init_def inbound_exclusions_def outbound_exclusions_def)
qed

lemma GatekeeperMiddleware_init_same_condition:
  assumes "GatekeeperMiddleware_init h a = Some mw"
  shows "inbound_condition mw = outbound_condition mw \<and> wsgi_app mw = a"
  using assms
  by (auto simp: GatekeeperMiddleware_init_def outbound_exclusions_def split: option.splits)

text \<open>Facts about the concrete deployment.\<close>

lemma length_long_name: "length long_name = 257"
  by (simp add: long_name_def)

lemma sysmeta_prefixes_literal:
  "list_all (\<lambda>p. \<not> list_ex re_unsupported p \<and> CHR ''|'' \<notin> set p)
     (inbound_exclusions sysmeta_helpers)"
  by (simp add: inbound_exclusions_def sysmeta_helpers_def re_unsupported_def)

lemma sysmeta_gatekeeper_init:
  "GatekeeperMiddleware_init sysmeta_helpers leaky_app = Some sysmeta_gatekeeper"
  using GatekeeperMiddleware_init_literals [OF sysmeta_prefixes_literal, of leaky_app]
  by (simp add: sysmeta_helpers_def sysmeta_gatekeeper_def)


section \<open>The claims about the account controller and the gatekeeper\<close>

subsection \<open>Names longer than the maximum\<close>

text \<open>
  C1, as the code has it. When the decoded account name is longer than the maximum,
  GET, HEAD and POST return the bad-request response about the name length, and PUT
  returns method-not-allowed when account management is off, else the error of the
  metadata check when there is one, else the same bad-request response. In all of
  these the state comes back as it went in: the ring is not resolved, no header is
  generated, no cache key is deleted and nothing is dispatched. The theorem says
  nothing about DELETE.
\<close>

theorem overlong_name_rejected:
  assumes "MAX_ACCOUNT_NAME_LENGTH d < length (account_name self)"
  shows "GETorHEAD d self req s = (name_too_long d self req, s)
       \<and> POST d self req s = (name_too_long d self req, s)
       \<and> PUT d self req s =
           ((if \<not> allow_account_management (app self)
             then HTTPMethodNotAllowed req [(''Allow'', join '', '' (allowed_methods self))]
             else case check_metadata d req ''account'' of
                    Some error_response \<Rightarrow> error_response
                  | None \<Rightarrow> name_too_long d self req), s)
       \<and> status_int (name_too_long d self req) = 400"
  using assms
  by (simp add: GETorHEAD_def POST_def PUT_def name_too_long_def HTTPBadRequest_def
        split: option.splits)

text \<open>
  On the concrete deployment, with a name of 257 characters and account management on,
  the three handlers answer 400 and the call log stays empty.
\<close>

theorem overlong_name_rejected_witness:
  "MAX_ACCOUNT_NAME_LENGTH cluster < length (account_name (account_controller managed long_name))
   \<and> GETorHEAD cluster (account_controller managed long_name) (request_for ''HEAD'' long_name)
        ([], True)
      = (name_too_long cluster (account_controller managed long_name)
           (request_for ''HEAD'' long_name), ([], True))
   \<and> POST cluster (account_controller managed long_name) (request_for ''POST'' long_name)
        ([], True)
      = (name_too_long cluster (account_controller managed long_name)
           (request_for ''POST'' long_name), ([], True))
   \<and> PUT cluster (account_controller managed long_name) (request_for ''PUT'' long_name)
        ([], True)
      = (name_too_long cluster (account_controller managed long_name)
           (request_for ''PUT'' long_name), ([], True))
   \<and> status_int (name_too_long cluster (account_controller managed long_name)
        (request_for ''PUT'' long_name)) = 400"
  using overlong_name_rejected [where d = cluster
      and self = "account_controller managed long_name"
      and req = "request_for ''HEAD'' long_name" and s = "([], True)"]
    overlong_name_rejected [where d = cluster
      and self = "account_controller managed long_name"
      and req = "request_for ''POST'' long_name" and s = "([], True)"]
    overlong_name_rejected [where d = cluster
      and self = "account_controller managed long_name"
      and req = "request_for ''PUT'' long_name" and s = "([], True)"]
  by (simp add: cluster_def account_controller_def managed_def length_long_name
        request_for_def)

text \<open>
  The claim as the spec words it fails twice on the concrete deployment. A DELETE for
  the 257-character name, with account management on and no query string, resolves
  the ring and dispatches to the three replicas; and a PUT for that name with account
  management off answers 405, not 400.
\<close>

theorem overlong_name_counterexample:
  "MAX_ACCOUNT_NAME_LENGTH cluster < length (account_name (account_controller managed long_name))
   \<and> DELETE cluster (account_controller managed long_name) (request_for ''DELETE'' long_name)
        ([], False)
      = (\<lparr>status_int = 404, resp_headers = [], body = []\<rparr>,
         ([RingGetNodes long_name,
           GenerateRequestHeaders (request_for ''DELETE'' long_name) False,
           MemcacheDelete (''account/'' @ long_name),
           MakeRequests (request_for ''DELETE'' long_name) 7 ''DELETE'' (''/v1/'' @ long_name)
             [[(''x-trans-id'', ''tx1'')], [(''x-trans-id'', ''tx1'')],
              [(''x-trans-id'', ''tx1'')]]],
          False))
   \<and> MAX_ACCOUNT_NAME_LENGTH cluster
       < length (account_name (account_controller unmanaged long_name))
   \<and> status_int (fst (PUT cluster (account_controller unmanaged long_name)
        (request_for ''PUT'' long_name) ([], False))) = 405"
  by (simp add: cluster_def account_controller_def managed_def unmanaged_def length_long_name
        request_for_def DELETE_def PUT_def call_defs three_nodes_def HTTPMethodNotAllowed_def
        numeral_3_eq_3)


subsection \<open>What the inbound filter removes\<close>

text \<open>
  C2, as the code has it. When the three system-metadata prefixes hold no special
  character of the expression language, the middleware is built, and its inbound
  condition holds of a header name exactly when the name starts with one of the three
  prefixes, letters compared without case: whatever follows the prefix is not looked
  at. The filter takes out the headers whose names satisfy the condition and leaves
  every other header; it is a total function.
\<close>

theorem inbound_filter_removes_prefix_matches:
  assumes "list_all (\<lambda>p. \<not> list_ex re_unsupported p \<and> CHR ''|'' \<notin> set p)
             (inbound_exclusions h)"
  shows "\<exists>mw. GatekeeperMiddleware_init h a = Some mw
     \<and> (\<forall>name. inbound_condition mw name \<longleftrightarrow>
           list_ex (\<lambda>p. take (length p) (map lower_char name) = map lower_char p)
             (inbound_exclusions h))
     \<and> (\<forall>hs k v.
           ((k, v) \<in> set (snd (remove_items hs (inbound_condition mw))) \<longleftrightarrow>
              (k, v) \<in> set hs \<and> inbound_condition mw k)
         \<and> ((k, v) \<in> set (fst (remove_items hs (inbound_condition mw))) \<longleftrightarrow>
              (k, v) \<in> set hs \<and> \<not> inbound_condition mw k))"
  using GatekeeperMiddleware_init_literals [OF assms, of a]
  by (auto simp: match_literal_iff inbound_exclusions_def remove_items_def)

text \<open>The prefixes \<^verbatim>\<open>x-<class>-sysmeta-\<close> hold no special character.\<close>

theorem inbound_filter_removes_prefix_matches_witness:
  "list_all (\<lambda>p. \<not> list_ex re_unsupported p \<and> CHR ''|'' \<notin> set p)
     (inbound_exclusions sysmeta_helpers)
   \<and> (\<exists>mw. GatekeeperMiddleware_init sysmeta_helpers leaky_app = Some mw
     \<and> (\<forall>name. inbound_condition mw name \<longleftrightarrow>
           list_ex (\<lambda>p. take (length p) (map lower_char name) = map lower_char p)
             (inbound_exclusions sysmeta_helpers))
     \<and> (\<forall>hs k v.
           ((k, v) \<in> set (snd (remove_items hs (inbound_condition mw))) \<longleftrightarrow>
              (k, v) \<in> set hs \<and> inbound_condition mw k)
         \<and> ((k, v) \<in> set (fst (remove_items hs (inbound_condition mw))) \<longleftrightarrow>
              (k, v) \<in> set hs \<and> \<not> inbound_condition mw k)))"
  using sysmeta_prefixes_literal
    inbound_filter_removes_prefix_matches [OF sysmeta_prefixes_literal, of leaky_app]
  by blast

text \<open>
  The claim as the spec words it fails: the name \<^verbatim>\<open>X-Account-Sysmeta-Foo\<close> is,
  without case, none of the three patterns in full, and the filter removes it.
\<close>

theorem prefix_match_counterexample:
  "GatekeeperMiddleware_init sysmeta_helpers leaky_app = Some sysmeta_gatekeeper
   \<and> map lower_char ''X-Account-Sysmeta-Foo''
       \<noteq> map lower_char (get_sys_meta_prefix sysmeta_helpers ''account'')
   \<and> map lower_char ''X-Account-Sysmeta-Foo''
       \<noteq> map lower_char (get_sys_meta_prefix sysmeta_helpers ''container'')
   \<and> map lower_char ''X-Account-Sysmeta-Foo''
       \<noteq> map lower_char (get_sys_meta_prefix sysmeta_helpers ''object'')
   \<and> inbound_condition sysmeta_gatekeeper ''X-Account-Sysmeta-Foo''
   \<and> remove_items [(''X-Account-Sysmeta-Foo'', ''1''), (''X-Account-Meta-Bar'', ''2'')]
        (inbound_condition sysmeta_gatekeeper)
      = ([(''X-Account-Meta-Bar'', ''2'')], [(''X-Account-Sysmeta-Foo'', ''1'')])"
proof -
  have rest: "map lower_char ''X-Account-Sysmeta-Foo''
       \<noteq> map lower_char (get_sys_meta_prefix sysmeta_helpers ''account'')
   \<and> map lower_char ''X-Account-Sysmeta-Foo''
       \<noteq> map lower_char (get_sys_meta_prefix sysmeta_helpers ''container'')
   \<and> map lower_char ''X-Account-Sysmeta-Foo''
       \<noteq> map lower_char (get_sys_meta_prefix sysmeta_helpers ''object'')
   \<and> inbound_condition sysmeta_gatekeeper ''X-Account-Sysmeta-Foo''
   \<and> remove_items [(''X-Account-Sysmeta-Foo'', ''1''), (''X-Account-Meta-Bar'', ''2'')]
        (inbound_condition sysmeta_gatekeeper)
      = ([(''X-Account-Meta-Bar'', ''2'')], [(''X-Account-Sysmeta-Foo'', ''1'')])"
    by code_simp
  from sysmeta_gatekeeper_init rest show ?thesis by simp
qed


subsection \<open>Inbound and outbound filtering\<close>

text \<open>
  C3. A middleware that was built has one condition for both directions: a header name
  satisfies the inbound condition exactly when it satisfies the outbound one. On a
  request, the response that leaves is the pipeline's response without the headers
  the outbound condition takes out, the two debug lines carry what was removed, and
  the removed names share nothing with the names delivered: neither the names removed
  from the request with the headers handed to the pipeline or with the headers of the
  final response, nor the names removed from the response with the headers of the
  final response.
\<close>

theorem gatekeeper_filters_symmetric:
  assumes "GatekeeperMiddleware_init h a = Some mw"
    and "remove_items (req_headers req) (inbound_condition mw) = (kept, removed)"
    and "wsgi_app mw (req\<lparr>req_headers := kept\<rparr>) w = (raw, w')"
    and "remove_items (resp_headers raw) (outbound_condition mw) = (kept', removed')"
  shows "(\<forall>name. inbound_condition mw name \<longleftrightarrow> outbound_condition mw name)
     \<and> fst (fst (GatekeeperMiddleware_call mw req w)) = raw\<lparr>resp_headers := kept'\<rparr>
     \<and> snd (fst (GatekeeperMiddleware_call mw req w)) =
         (if removed \<noteq> [] then [(''removed request headers: '', removed)] else [])
         @ (if removed' \<noteq> [] then [(''removed response headers: '', removed')] else [])
     \<and> fst ` set removed \<inter> fst ` set kept = {}
     \<and> fst ` set removed \<inter> fst ` set kept' = {}
     \<and> fst ` set removed' \<inter> fst ` set kept' = {}"
proof -
  from GatekeeperMiddleware_init_same_condition [OF assms(1)]
  have same: "inbound_condition mw = outbound_condition mw" by simp
  have r: "removed = filter (\<lambda>kv. inbound_condition mw (fst kv)) (req_headers req)"
    and k: "kept = filter (\<lambda>kv. \<not> inbound_condition mw (fst kv)) (req_headers req)"
    using assms(2) by (simp_all add: remove_items_def)
  have r': "removed' = filter (\<lambda>kv. inbound_condition mw (fst kv)) (resp_headers raw)"
    and k': "kept' = filter (\<lambda>kv. \<not> inbound_condition mw (fst kv)) (resp_headers raw)"
    using assms(4) same by (simp_all add: remove_items_def)
  have call: "GatekeeperMiddleware_call mw req w =
      ((raw\<lparr>resp_headers := kept'\<rparr>,
        (if removed \<noteq> [] then [(''removed request headers: '', removed)] else [])
        @ (if removed' \<noteq> [] then [(''removed response headers: '', removed')] else [])), w')"
    using assms(2-4) by (simp add: GatekeeperMiddleware_call_def)
  have d1: "fst ` set removed \<inter> fst ` set kept = {}" unfolding r k by auto
  have d2: "fst ` set removed \<inter> fst ` set kept' = {}" unfolding r k' by auto
  have d3: "fst ` set removed' \<inter> fst ` set kept' = {}" unfolding r' k' by auto
  show ?thesis using same call d1 d2 d3 by simp
qed

text \<open>
  A request that forges a system-metadata header, through a pipeline that leaks one:
  the forged header does not reach the pipeline and the leaked one does not reach the
  client.
\<close>

theorem gatekeeper_filters_symmetric_witness:
  "GatekeeperMiddleware_init sysmeta_helpers leaky_app = Some sysmeta_gatekeeper
   \<and> remove_items (req_headers forged_request) (inbound_condition sysmeta_gatekeeper)
      = ([(''X-Account-Meta-Bar'', ''2'')], [(''X-Account-Sysmeta-Foo'', ''1'')])
   \<and> wsgi_app sysmeta_gatekeeper
        (forged_request\<lparr>req_headers := [(''X-Account-Meta-Bar'', ''2'')]\<rparr>) True
      = (\<lparr>status_int = 200,
          resp_headers = [(''X-Container-Sysmeta-Acl'', ''secret''),
                          (''X-Account-Meta-Bar'', ''2'')],
          body = []\<rparr>, True)
   \<and> remove_items [(''X-Container-Sysmeta-Acl'', ''secret''), (''X-Account-Meta-Bar'', ''2'')]
        (outbound_condition sysmeta_gatekeeper)
      = ([(''X-Account-Meta-Bar'', ''2'')], [(''X-Container-Sysmeta-Acl'', ''secret'')])
   \<and> fst (fst (GatekeeperMiddleware_call sysmeta_gatekeeper forged_request True))
      = \<lparr>status_int = 200, resp_headers = [(''X-Account-Meta-Bar'', ''2'')], body = []\<rparr>
   \<and> snd (fst (GatekeeperMiddleware_call sysmeta_gatekeeper forged_request True))
      = [(''removed request headers: '', [(''X-Account-Sysmeta-Foo'', ''1'')]),
         (''removed response headers: '', [(''X-Container-Sysmeta-Acl'', ''secret'')])]"
proof -
  have h2: "remove_items (req_headers forged_request) (inbound_condition sysmeta_gatekeeper)
      = ([(''X-Account-Meta-Bar'', ''2'')], [(''X-Account-Sysmeta-Foo'', ''1'')])"
    by code_simp
  have h3: "wsgi_app sysmeta_gatekeeper
        (forged_request\<lparr>req_headers := [(''X-Account-Meta-Bar'', ''2'')]\<rparr>) True
      = (\<lparr>status_int = 200,
          resp_headers = [(''X-Container-Sysmeta-Acl'', ''secret''),
                          (''X-Account-Meta-Bar'', ''2'')],
          body = []\<rparr>, True)"
    by (simp add: sysmeta_gatekeeper_def leaky_app_def)
  have h4: "remove_items
        (resp_headers \<lparr>status_int = 200,
          resp_headers = [(''X-Container-Sysmeta-Acl'', ''secret''),
                          (''X-Account-Meta-Bar'', ''2'')],
          body = []\<rparr>)
        (outbound_condition sysmeta_gatekeeper)
      = ([(''X-Account-Meta-Bar'', ''2'')], [(''X-Container-Sysmeta-Acl'', ''secret'')])"
    by code_simp
  show ?thesis
    using gatekeeper_filters_symmetric [OF sysmeta_gatekeeper_init h2 h3 h4]
      sysmeta_gatekeeper_init h2 h3 h4
    by simp
qed


subsection \<open>Reading an account that is not there\<close>

text \<open>
  C4. For GET and HEAD on a name within the maximum, the ring is resolved once and the
  replicas are read once. If that read answers not-found and autocreate is on, the
  handler reads the clock and returns a 204 response whose headers are the fixed
  placeholders (zero bytes used, zero containers, zero objects) and the timestamp made
  from that clock reading; the only call after the read is the clock, so no replica is
  contacted again and the state outside is the one the read left, but for the clock
  reading. Otherwise the response of the read is returned as it is.
\<close>

theorem GETorHEAD_autocreate_fake_response:
  assumes "length (account_name self) \<le> MAX_ACCOUNT_NAME_LENGTH d"
    and "ring_get_nodes d (account_name self) w = ((part, nodes), wa)"
    and "GETorHEAD_base d req (gettext d ''Account'') part (rstrip_slash (path_info req)) wa
           = (resp, wb)"
    and "time_time d wb = (t, wc)"
  shows "GETorHEAD d self req (tr, w) =
           (if status_int resp = 404 \<and> account_autocreate (app self) then
              (\<lparr>status_int = 204,
                resp_headers =
                  [(''Content-Length'', ''0''),
                   (''Accept-Ranges'', ''bytes''),
                   (''Content-Type'', ''text/plain; charset=utf-8''),
                   (''X-Timestamp'', normalize_timestamp d t),
                   (''X-Account-Bytes-Used'', ''0''),
                   (''X-Account-Container-Count'', ''0''),
                   (''X-Account-Object-Count'', ''0'')],
                body = []\<rparr>,
               (tr @ [RingGetNodes (account_name self),
                      GETorHEADBase req (gettext d ''Account'') part
                        (rstrip_slash (path_info req)),
                      TimeTime],
                wc))
            else
              (resp,
               (tr @ [RingGetNodes (account_name self),
                      GETorHEADBase req (gettext d ''Account'') part
                        (rstrip_slash (path_info req))],
                wb)))"
  using GETorHEAD_dispatch [OF assms, of tr]
  by (simp add: HTTP_NOT_FOUND_def HTTPNoContent_def fake_headers_def)

text \<open>
  HEAD on the absent account alpha, three replicas, autocreate on: the faked 204, after
  one ring resolution, one read and one clock reading.
\<close>

theorem GETorHEAD_autocreate_fake_response_witness:
  "length (account_name (account_controller managed ''alpha'')) \<le> MAX_ACCOUNT_NAME_LENGTH cluster
   \<and> ring_get_nodes cluster ''alpha'' False = ((7, three_nodes), False)
   \<and> GETorHEAD_base cluster (request_for ''HEAD'' ''alpha'') ''Account'' 7 ''/v1/alpha'' False
      = (\<lparr>status_int = 404, resp_headers = [], body = []\<rparr>, False)
   \<and> time_time cluster False = (1383490000, False)
   \<and> GETorHEAD cluster (account_controller managed ''alpha'') (request_for ''HEAD'' ''alpha'')
        ([], False)
      = (\<lparr>status_int = 204,
          resp_headers =
            [(''Content-Length'', ''0''),
             (''Accept-Ranges'', ''bytes''),
             (''Content-Type'', ''text/plain; charset=utf-8''),
             (''X-Timestamp'', normalize_timestamp cluster 1383490000),
             (''X-Account-Bytes-Used'', ''0''),
             (''X-Account-Container-Count'', ''0''),
             (''X-Account-Object-Count'', ''0'')],
          body = []\<rparr>,
         ([RingGetNodes ''alpha'',
           GETorHEADBase (request_for ''HEAD'' ''alpha'') ''Account'' 7 ''/v1/alpha'',
           TimeTime],
          False))"
  using GETorHEAD_autocreate_fake_response [where d = cluster
      and self = "account_controller managed ''alpha''"
      and req = "request_for ''HEAD'' ''alpha''" and w = False and tr = "[]"
      and part = 7 and nodes = three_nodes and wa = False and wb = False
      and resp = "\<lparr>status_int = 404, resp_headers = [], body = []\<rparr>"
      and t = 1383490000 and wc = False]
  by (simp add: cluster_def account_controller_def managed_def request_for_def
        rstrip_slash_def)


subsection \<open>Updating an account that is not there\<close>

text \<open>
  C5. For POST with a name within the maximum and metadata that passes the check: if
  the first dispatch answers not-found and autocreate is on, the calls from the first
  dispatch on are that dispatch, one implicit create of the account and one more
  dispatch, and the response of the second dispatch is returned as it is, whatever its
  status; otherwise the only dispatch is the first and its response is returned.
\<close>

theorem POST_autocreate_retries_once:
  assumes "length (account_name self) \<le> MAX_ACCOUNT_NAME_LENGTH d"
    and "check_metadata d req ''account'' = None"
    and "ring_get_nodes d (account_name self) w = ((part, nodes), wa)"
    and "generate_request_headers d req True wa = (hs, wb)"
    and "make_requests d req part ''POST'' (path_info req) (replicate (length nodes) hs)
           (if memcache (app self)
            then memcache_delete d (get_account_memcache_key d (account_name self)) wb
            else wb) = (first, wd)"
    and "make_requests d req part ''POST'' (path_info req) (replicate (length nodes) hs)
           (autocreate_account d (account_name self) wd) = (second, we)"
  shows "if status_int first = 404 \<and> account_autocreate (app self) then
           fst (POST d self req ([], w)) = second
           \<and> snd (snd (POST d self req ([], w))) = we
           \<and> dropWhile (\<lambda>e. \<not> is_dispatch e) (fst (snd (POST d self req ([], w)))) =
               [MakeRequests req part ''POST'' (path_info req) (replicate (length nodes) hs),
                AutocreateAccount (account_name self),
                MakeRequests req part ''POST'' (path_info req) (replicate (length nodes) hs)]
         else
           fst (POST d self req ([], w)) = first
           \<and> snd (snd (POST d self req ([], w))) = wd
           \<and> dropWhile (\<lambda>e. \<not> is_dispatch e) (fst (snd (POST d self req ([], w)))) =
               [MakeRequests req part ''POST'' (path_info req) (replicate (length nodes) hs)]"
  using POST_dispatch [OF assms(2) assms(1) assms(3-6), of "[]"]
  by (cases "memcache (app self)") (auto simp: HTTP_NOT_FOUND_def)

text \<open>
  POST on the absent account alpha with autocreate on. On the deployment whose replicas
  refuse the implicit create, the second dispatch answers 404 again and that is what
  the client gets, after one create and one retry.
\<close>

theorem POST_autocreate_retries_once_witness:
  "length (account_name (account_controller managed ''alpha''))
     \<le> MAX_ACCOUNT_NAME_LENGTH stubborn_cluster
   \<and> check_metadata stubborn_cluster (request_for ''POST'' ''alpha'') ''account'' = None
   \<and> ring_get_nodes stubborn_cluster ''alpha'' False = ((7, three_nodes), False)
   \<and> generate_request_headers stubborn_cluster (request_for ''POST'' ''alpha'') True False
      = ([(''x-trans-id'', ''tx1'')], False)
   \<and> status_int (fst (make_requests stubborn_cluster (request_for ''POST'' ''alpha'') 7
        ''POST'' ''/v1/alpha'' (replicate 3 [(''x-trans-id'', ''tx1'')]) False)) = 404
   \<and> account_autocreate (app (account_controller managed ''alpha''))
   \<and> fst (POST stubborn_cluster (account_controller managed ''alpha'')
        (request_for ''POST'' ''alpha'') ([], False))
      = \<lparr>status_int = 404, resp_headers = [], body = []\<rparr>
   \<and> dropWhile (\<lambda>e. \<not> is_dispatch e)
        (fst (snd (POST stubborn_cluster (account_controller managed ''alpha'')
           (request_for ''POST'' ''alpha'') ([], False))))
      = [MakeRequests (request_for ''POST'' ''alpha'') 7 ''POST'' ''/v1/alpha''
           (replicate 3 [(''x-trans-id'', ''tx1'')]),
         AutocreateAccount ''alpha'',
         MakeRequests (request_for ''POST'' ''alpha'') 7 ''POST'' ''/v1/alpha''
           (replicate 3 [(''x-trans-id'', ''tx1'')])]"
  using POST_autocreate_retries_once [where d = stubborn_cluster
      and self = "account_controller managed ''alpha''"
      and req = "request_for ''POST'' ''alpha''" and w = False
      and part = 7 and nodes = three_nodes and wa = False and wb = False
      and hs = "[(''x-trans-id'', ''tx1'')]"
      and first = "\<lparr>status_int = 404, resp_headers = [], body = []\<rparr>" and wd = False
      and second = "\<lparr>status_int = 404, resp_headers = [], body = []\<rparr>" and we = False]
  by (simp add: stubborn_cluster_def cluster_def account_controller_def managed_def
        request_for_def three_nodes_def numeral_3_eq_3)


subsection \<open>Cache invalidation and dispatch\<close>

text \<open>
  C6, as the code has it. Take PUT, POST or DELETE on an empty call log, and let the
  log it leaves hold a dispatch. When the application has a cache client, the cache
  deletes issued before the first dispatch are exactly one, of the key of this
  account, and none is issued from the first dispatch on, whatever the dispatch
  answers. When the application has no cache client, no cache delete is issued at all.
\<close>

theorem cache_invalidation_precedes_dispatch:
  assumes "H = PUT \<or> H = POST \<or> H = DELETE"
    and "calls = fst (snd (H d self req ([], w)))"
    and "list_ex is_dispatch calls"
  shows "filter is_invalidation (takeWhile (\<lambda>e. \<not> is_dispatch e) calls)
           = (if memcache (app self)
              then [MemcacheDelete (get_account_memcache_key d (account_name self))] else [])
       \<and> filter is_invalidation (dropWhile (\<lambda>e. \<not> is_dispatch e) calls) = []"
proof -
  have "calls = [] \<or> (\<exists>e rest transfer. is_dispatch e \<and> \<not> list_ex is_invalidation rest \<and>
             calls = [RingGetNodes (account_name self), GenerateRequestHeaders req transfer]
                     @ (if memcache (app self)
                        then [MemcacheDelete (get_account_memcache_key d (account_name self))]
                        else []) @ e # rest)"
  proof -
    consider "H = PUT" | "H = POST" | "H = DELETE" using assms(1) by blast
    then show ?thesis
    proof cases
      case 1
      with PUT_calls [of d self req w] assms(2) show ?thesis by fastforce
    next
      case 2
      with POST_calls [of d self req w] assms(2) show ?thesis by fastforce
    next
      case 3
      with DELETE_calls [of d self req w] assms(2) show ?thesis by fastforce
    qed
  qed
  then show ?thesis using invalidation_first assms(3) by blast
qed

text \<open>
  POST on the absent account alpha, with a cache and autocreate: the log holds two
  dispatches, and the one cache delete stands before the first.
\<close>

theorem cache_invalidation_precedes_dispatch_witness:
  "list_ex is_dispatch
     (fst (snd (POST cluster (account_controller managed ''alpha'')
        (request_for ''POST'' ''alpha'') ([], False))))
   \<and> filter is_invalidation (takeWhile (\<lambda>e. \<not> is_dispatch e)
        (fst (snd (POST cluster (account_controller managed ''alpha'')
           (request_for ''POST'' ''alpha'') ([], False)))))
      = [MemcacheDelete ''account/alpha'']
   \<and> filter is_invalidation (dropWhile (\<lambda>e. \<not> is_dispatch e)
        (fst (snd (POST cluster (account_controller managed ''alpha'')
           (request_for ''POST'' ''alpha'') ([], False)))))
      = []"
proof -
  have reaches: "list_ex is_dispatch
     (fst (snd (POST cluster (account_controller managed ''alpha'')
        (request_for ''POST'' ''alpha'') ([], False))))"
    by (simp add: POST_def call_defs cluster_def account_controller_def managed_def
          request_for_def HTTP_NOT_FOUND_def)
  have key: "get_account_memcache_key cluster
        (account_name (account_controller managed ''alpha'')) = ''account/alpha''"
    by (simp add: cluster_def account_controller_def)
  have cached: "memcache (app (account_controller managed ''alpha''))"
    by (simp add: account_controller_def managed_def)
  show ?thesis
    using cache_invalidation_precedes_dispatch [where H = POST and d = cluster
        and self = "account_controller managed ''alpha''"
        and req = "request_for ''POST'' ''alpha''" and w = False, OF _ refl reaches]
      reaches key cached
    by simp
qed

text \<open>
  The claim as the spec words it fails where the application has no cache client: a PUT
  for alpha reaches the dispatch, and no cache delete was issued before it.
\<close>

theorem uncached_dispatch_counterexample:
  "\<not> memcache (app (account_controller uncached ''alpha''))
   \<and> PUT cluster (account_controller uncached ''alpha'') (request_for ''PUT'' ''alpha'')
        ([], False)
      = (\<lparr>status_int = 201, resp_headers = [], body = []\<rparr>,
         ([RingGetNodes ''alpha'',
           GenerateRequestHeaders (request_for ''PUT'' ''alpha'') True,
           MakeRequests (request_for ''PUT'' ''alpha'') 7 ''PUT'' ''/v1/alpha''
             [[(''x-trans-id'', ''tx1'')], [(''x-trans-id'', ''tx1'')],
              [(''x-trans-id'', ''tx1'')]]],
          True))"
  by (simp add: PUT_def call_defs cluster_def account_controller_def uncached_def
        request_for_def three_nodes_def)


subsection \<open>DELETE with a query string\<close>

text \<open>
  C7. A DELETE whose query string is not empty returns the bad-request response, with
  the state as it went in, whatever the account-management flag says and whatever the
  replicas hold: the query string is looked at before the flag.
\<close>

theorem DELETE_query_string_rejected:
  assumes "query_string req \<noteq> []"
  shows "DELETE d self req s = (HTTPBadRequest req, s)
       \<and> status_int (HTTPBadRequest req) = 400"
  using assms by (simp add: DELETE_def HTTPBadRequest_def)

text \<open>Account management on, the account alpha present, a bulk-delete marker in the query.\<close>

theorem DELETE_query_string_rejected_witness:
  "query_string bulk_delete \<noteq> []
   \<and> allow_account_management (app (account_controller managed ''alpha''))
   \<and> DELETE cluster (account_controller managed ''alpha'') bulk_delete ([], True)
      = (\<lparr>status_int = 400, resp_headers = [], body = []\<rparr>, ([], True))
   \<and> DELETE cluster (account_controller unmanaged ''alpha'') bulk_delete ([], True)
      = (\<lparr>status_int = 400, resp_headers = [], body = []\<rparr>, ([], True))"
  using DELETE_query_string_rejected [where d = cluster
      and self = "account_controller managed ''alpha''"
      and req = bulk_delete and s = "([], True)"]
    DELETE_query_string_rejected [where d = cluster
      and self = "account_controller unmanaged ''alpha''"
      and req = bulk_delete and s = "([], True)"]
  by (simp add: bulk_delete_def request_for_def HTTPBadRequest_def account_controller_def
        managed_def)


subsection \<open>Account management switched off\<close>

text \<open>
  C8. For a controller built while account management is off, PUT returns the
  method-not-allowed response with the state as it went in, and so does DELETE when the
  query string is empty; the response has status 405 and an Allow header that joins
  the allowed methods of the controller, and neither PUT nor DELETE is among them.
\<close>

theorem management_disabled_method_not_allowed:
  assumes "AccountController_init d a name = Inr self"
    and "\<not> allow_account_management a"
  shows "PUT d self req s =
           (HTTPMethodNotAllowed req [(''Allow'', join '', '' (allowed_methods self))], s)
       \<and> (query_string req = [] \<longrightarrow>
            DELETE d self req s =
              (HTTPMethodNotAllowed req [(''Allow'', join '', '' (allowed_methods self))], s))
       \<and> status_int (HTTPMethodNotAllowed req
            [(''Allow'', join '', '' (allowed_methods self))]) = 405
       \<and> ''PUT'' \<notin> set (allowed_methods self)
       \<and> ''DELETE'' \<notin> set (allowed_methods self)"
proof -
  from AccountController_init_unmanaged [OF assms]
  have a: "app self = a"
    and m: "''PUT'' \<notin> set (allowed_methods self)" "''DELETE'' \<notin> set (allowed_methods self)"
    by blast+
  from a assms(2) have off: "\<not> allow_account_management (app self)" by simp
  have "PUT d self req s =
           (HTTPMethodNotAllowed req [(''Allow'', join '', '' (allowed_methods self))], s)"
    using off by (simp add: PUT_def)
  moreover have "query_string req = [] \<longrightarrow>
            DELETE d self req s =
              (HTTPMethodNotAllowed req [(''Allow'', join '', '' (allowed_methods self))], s)"
    using off by (simp add: DELETE_def)
  moreover have "status_int (HTTPMethodNotAllowed req
            [(''Allow'', join '', '' (allowed_methods self))]) = 405"
    by (simp add: HTTPMethodNotAllowed_def)
  ultimately show ?thesis using m by blast
qed

text \<open>
  The account beta exists, account management is off: PUT and DELETE answer 405 with
  the Allow header GET, HEAD, POST, OPTIONS, and no call is made.
\<close>

theorem management_disabled_method_not_allowed_witness:
  "AccountController_init cluster unmanaged ''beta''
     = Inr \<lparr>app = unmanaged, account_name = ''beta'',
            allowed_methods = [''GET'', ''HEAD'', ''POST'', ''OPTIONS'']\<rparr>
   \<and> \<not> allow_account_management unmanaged
   \<and> PUT cluster \<lparr>app = unmanaged, account_name = ''beta'',
            allowed_methods = [''GET'', ''HEAD'', ''POST'', ''OPTIONS'']\<rparr>
        (request_for ''PUT'' ''beta'') ([], True)
      = (\<lparr>status_int = 405, resp_headers = [(''Allow'', ''GET, HEAD, POST, OPTIONS'')],
          body = []\<rparr>, ([], True))
   \<and> DELETE cluster \<lparr>app = unmanaged, account_name = ''beta'',
            allowed_methods = [''GET'', ''HEAD'', ''POST'', ''OPTIONS'']\<rparr>
        (request_for ''DELETE'' ''beta'') ([], True)
      = (\<lparr>status_int = 405, resp_headers = [(''Allow'', ''GET, HEAD, POST, OPTIONS'')],
          body = []\<rparr>, ([], True))"
proof -
  have init: "AccountController_init cluster unmanaged ''beta''
     = Inr \<lparr>app = unmanaged, account_name = ''beta'',
            allowed_methods = [''GET'', ''HEAD'', ''POST'', ''OPTIONS'']\<rparr>"
    by (simp add: AccountController_init_def cluster_def unmanaged_def set_remove_def)
  have off: "\<not> allow_account_management unmanaged"
    by (simp add: unmanaged_def)
  show ?thesis
    using management_disabled_method_not_allowed [OF init off,
        where req = "request_for ''PUT'' ''beta''" and s = "([], True)"]
      management_disabled_method_not_allowed [OF init off,
        where req = "request_for ''DELETE'' ''beta''" and s = "([], True)"]
      init off
    by (simp add: HTTPMethodNotAllowed_def request_for_def)
qed


subsection \<open>The order of the checks in PUT and in POST\<close>

text \<open>
  C9. For a request whose metadata fails the check and an account name longer than the
  maximum, PUT with account management on returns the error of the metadata check, and
  POST returns the bad-request response about the name length; neither makes a call.
\<close>

theorem PUT_POST_check_order:
  assumes "check_metadata d req ''account'' = Some error_response"
    and "MAX_ACCOUNT_NAME_LENGTH d < length (account_name self)"
    and "allow_account_management (app self)"
  shows "PUT d self req s = (error_response, s)
       \<and> POST d self req s = (name_too_long d self req, s)"
  using assms by (simp add: PUT_def POST_def)

text \<open>
  A metadata header with an empty name, on the 257-character account: the two handlers
  return different responses to the same request.
\<close>

theorem PUT_POST_check_order_witness:
  "check_metadata cluster (empty_meta_request ''PUT'' long_name) ''account''
     = Some (bad_metadata (empty_meta_request ''PUT'' long_name))
   \<and> MAX_ACCOUNT_NAME_LENGTH cluster < length (account_name (account_controller managed long_name))
   \<and> allow_account_management (app (account_controller managed long_name))
   \<and> PUT cluster (account_controller managed long_name) (empty_meta_request ''PUT'' long_name)
        ([], True)
      = (bad_metadata (empty_meta_request ''PUT'' long_name), ([], True))
   \<and> POST cluster (account_controller managed long_name) (empty_meta_request ''PUT'' long_name)
        ([], True)
      = (name_too_long cluster (account_controller managed long_name)
           (empty_meta_request ''PUT'' long_name), ([], True))
   \<and> bad_metadata (empty_meta_request ''PUT'' long_name)
      \<noteq> name_too_long cluster (account_controller managed long_name)
           (empty_meta_request ''PUT'' long_name)"
proof -
  have bad: "check_metadata cluster (empty_meta_request ''PUT'' long_name) ''account''
     = Some (bad_metadata (empty_meta_request ''PUT'' long_name))"
    by (simp add: cluster_def empty_meta_request_def request_for_def)
  have long: "MAX_ACCOUNT_NAME_LENGTH cluster
      < length (account_name (account_controller managed long_name))"
    by (simp add: cluster_def account_controller_def length_long_name)
  have on: "allow_account_management (app (account_controller managed long_name))"
    by (simp add: account_controller_def managed_def)
  have differ: "bad_metadata (empty_meta_request ''PUT'' long_name)
      \<noteq> name_too_long cluster (account_controller managed long_name)
           (empty_meta_request ''PUT'' long_name)"
    by (simp add: bad_metadata_def name_too_long_def HTTPBadRequest_def)
  show ?thesis
    using PUT_POST_check_order [OF bad long on, where s = "([], True)"] bad long on differ
    by simp
qed


subsection \<open>What the retry of POST dispatches\<close>

text \<open>
  C10. When POST retries (name within the maximum, metadata passing the check, first
  dispatch not-found, autocreate on), its whole call log is: one ring resolution, one
  header generation, the cache delete when there is a cache, a dispatch, the implicit
  create, and the very same dispatch again: same request, partition, method, path and
  list of per-node headers, the partition and the node count taken from the one ring
  resolution and the headers from the one header generation.
\<close>

theorem POST_retry_reuses_dispatch_arguments:
  assumes "length (account_name self) \<le> MAX_ACCOUNT_NAME_LENGTH d"
    and "check_metadata d req ''account'' = None"
    and "ring_get_nodes d (account_name self) w = ((part, nodes), wa)"
    and "generate_request_headers d req True wa = (hs, wb)"
    and "make_requests d req part ''POST'' (path_info req) (replicate (length nodes) hs)
           (if memcache (app self)
            then memcache_delete d (get_account_memcache_key d (account_name self)) wb
            else wb) = (first, wd)"
    and "status_int first = 404"
    and "account_autocreate (app self)"
  shows "\<exists>e. e = MakeRequests req part ''POST'' (path_info req) (replicate (length nodes) hs)
           \<and> fst (snd (POST d self req ([], w))) =
               [RingGetNodes (account_name self), GenerateRequestHeaders req True]
               @ (if memcache (app self)
                  then [MemcacheDelete (get_account_memcache_key d (account_name self))]
                  else [])
               @ [e, AutocreateAccount (account_name self), e]"
proof -
  obtain second we where
    "make_requests d req part ''POST'' (path_info req) (replicate (length nodes) hs)
           (autocreate_account d (account_name self) wd) = (second, we)"
    by (cases "make_requests d req part ''POST'' (path_info req) (replicate (length nodes) hs)
           (autocreate_account d (account_name self) wd)") blast
  from POST_dispatch [OF assms(2) assms(1) assms(3-5) this, of "[]"] assms(6,7)
  show ?thesis by (simp add: HTTP_NOT_FOUND_def)
qed

text \<open>
  POST on the absent account alpha with a metadata header: both dispatches carry the
  header list made for the first, with its generated transaction id.
\<close>

theorem POST_retry_reuses_dispatch_arguments_witness:
  "length (account_name (account_controller managed ''alpha'')) \<le> MAX_ACCOUNT_NAME_LENGTH cluster
   \<and> check_metadata cluster (request_for ''POST'' ''alpha'') ''account'' = None
   \<and> ring_get_nodes cluster ''alpha'' False = ((7, three_nodes), False)
   \<and> generate_request_headers cluster (request_for ''POST'' ''alpha'') True False
      = ([(''x-trans-id'', ''tx1'')], False)
   \<and> status_int (fst (make_requests cluster (request_for ''POST'' ''alpha'') 7
        ''POST'' ''/v1/alpha'' (replicate 3 [(''x-trans-id'', ''tx1'')]) False)) = 404
   \<and> account_autocreate (app (account_controller managed ''alpha''))
   \<and> fst (snd (POST cluster (account_controller managed ''alpha'')
        (request_for ''POST'' ''alpha'') ([], False)))
      = [RingGetNodes ''alpha'',
         GenerateRequestHeaders (request_for ''POST'' ''alpha'') True,
         MemcacheDelete ''account/alpha'',
         MakeRequests (request_for ''POST'' ''alpha'') 7 ''POST'' ''/v1/alpha''
           (replicate 3 [(''x-trans-id'', ''tx1'')]),
         AutocreateAccount ''alpha'',
         MakeRequests (request_for ''POST'' ''alpha'') 7 ''POST'' ''/v1/alpha''
           (replicate 3 [(''x-trans-id'', ''tx1'')])]"
  using POST_retry_reuses_dispatch_arguments [where d = cluster
      and self = "account_controller managed ''alpha''"
      and req = "request_for ''POST'' ''alpha''" and w = False
      and part = 7 and nodes = three_nodes and wa = False and wb = False
      and hs = "[(''x-trans-id'', ''tx1'')]"
      and first = "\<lparr>status_int = 404, resp_headers = [], body = []\<rparr>" and wd = False]
  by (simp add: cluster_def account_controller_def managed_def
        request_for_def three_nodes_def numeral_3_eq_3)
end
